theory Spec2Isabelle
  imports Main
begin

section \<open>The coefficient-array interpreter of \<^verbatim>\<open>xcalc/interpreter.py\<close>\<close>

text \<open>
  The interpreter walks a UFL expression tree and builds a new dolfin Function whose
  coefficient array is a numpy kernel applied to the coefficient arrays of the operands.
  The embedding follows the Python function by function. The two libraries the file
  imports are outside the repository and enter as follows.

  \<^item> numpy: an array is its shape and its row-major data. The scalar type \<open>'a\<close> stands
    for a Python/numpy number; the interpreter never tells \<^verbatim>\<open>int\<close> from \<^verbatim>\<open>float\<close>
    (lines 51 and 90 treat them alike), and no arithmetic law is assumed of \<open>'a\<close>.
    What a kernel computes on scalars, and what the tensor kernels compute, is taken from
    the record \<open>lib\<close>; indexing, reshaping, broadcasting of coefficient arrays and item
    assignment are written out.
  \<^item> dolfin/UFL: a function space is its mesh and its element; the dof index lists and
    the local vector size of a space are taken from the record \<open>lib\<close>.

  Every \<^verbatim>\<open>raise\<close>, failed \<^verbatim>\<open>assert\<close> or library failure is a value \<open>Inl e\<close>.
\<close>

subsection \<open>Errors\<close>

datatype error =
    KeyError          \<comment> \<open>\<^verbatim>\<open>ss_rules[expr_type]\<close> on a missing key\<close>
  | AssertionError    \<comment> \<open>a failed \<^verbatim>\<open>assert\<close>\<close>
  | ValueError        \<comment> \<open>line 200; numpy shape mismatch; unpacking \<^verbatim>\<open>V_, = ...\<close>\<close>
  | AttributeError    \<comment> \<open>a number has no \<^verbatim>\<open>function_space\<close>\<close>
  | TypeError         \<comment> \<open>a kernel called with the wrong number or kind of arguments\<close>
  | IndexError        \<comment> \<open>numpy index out of bounds\<close>
  | NameError         \<comment> \<open>a local variable read before assignment\<close>
  | RuntimeError      \<comment> \<open>raised inside dolfin\<close>
  | LinAlgError       \<comment> \<open>raised inside a numpy tensor kernel\<close>
  | DanglingReference \<comment> \<open>no Python counterpart: a reference to an object that was never created\<close>

subsection \<open>UFL elements and dolfin function spaces\<close>

text \<open>
  The UFL element classes are outside the repository. An element is what UFL keeps of it:
  a scalar element its family, cell and degree, a vector element its sub-element and its
  number of components, a tensor element its sub-element and its shape. A vector element
  has one sub-element per component, a tensor element one per entry of its shape, a scalar
  element none.
\<close>

datatype element =
    FiniteElement string string nat   \<comment> \<open>family, cell, degree\<close>
  | VectorElement element nat         \<comment> \<open>sub-element, number of components\<close>
  | TensorElement element "nat list"  \<comment> \<open>sub-element, shape\<close>
  | MixedElement "element list"

fun sub_elements :: "element \<Rightarrow> element list" where
  "sub_elements (FiniteElement family cell degree) = []"
| "sub_elements (VectorElement sub n) = replicate n sub"
| "sub_elements (TensorElement sub shape) = replicate (prod_list shape) sub"
| "sub_elements (MixedElement subs) = subs"

fun value_shape :: "element \<Rightarrow> nat list" where
  "value_shape (FiniteElement family cell degree) = []"
| "value_shape (VectorElement sub n) = n # value_shape sub"
| "value_shape (TensorElement sub shape) = shape @ value_shape sub"
| "value_shape (MixedElement subs) = [sum_list (map (\<lambda>e. prod_list (value_shape e)) subs)]"

text \<open>
  The constructor calls of lines 196 and 198 are positional. UFL's signatures are
  \<^verbatim>\<open>VectorElement(family, cell=None, degree=None, dim=None, ...)\<close> and
  \<^verbatim>\<open>TensorElement(family, cell=None, degree=None, shape=None, ...)\<close>: the second
  positional argument is the cell. When \<^verbatim>\<open>family\<close> is an element, as it is in
  \<^verbatim>\<open>make_space\<close>, the cell is taken from that element and the argument is not read;
  \<^verbatim>\<open>dim\<close> and \<^verbatim>\<open>shape\<close> are not given and default to the geometric dimension \<open>d\<close>
  of the cell and to \<open>(d, d)\<close>.
\<close>

fun cell_of :: "element \<Rightarrow> string" where
  "cell_of (FiniteElement family cell degree) = cell"
| "cell_of (VectorElement sub n) = cell_of sub"
| "cell_of (TensorElement sub shape) = cell_of sub"
| "cell_of (MixedElement []) = []"
| "cell_of (MixedElement (sub # subs)) = cell_of sub"

definition geometric_dimension :: "string \<Rightarrow> nat" where
  "geometric_dimension cell =
     (if cell = ''interval'' then 1
      else if cell = ''triangle'' \<or> cell = ''quadrilateral'' then 2
      else if cell = ''tetrahedron'' \<or> cell = ''hexahedron'' then 3
      else 0)"

definition VectorElement_init :: "element \<Rightarrow> nat \<Rightarrow> element" where
  "VectorElement_init family cell = VectorElement family (geometric_dimension (cell_of family))"

definition TensorElement_init :: "element \<Rightarrow> nat list \<Rightarrow> element" where
  "TensorElement_init family cell =
     TensorElement family
       [geometric_dimension (cell_of family), geometric_dimension (cell_of family)]"

text \<open>A mesh is known to the interpreter by \<^verbatim>\<open>mesh.id()\<close> only.\<close>

record space =
  mesh :: nat
  ufl_element :: element

definition FunctionSpace :: "nat \<Rightarrow> element \<Rightarrow> space" where
  "FunctionSpace m elm = \<lparr>mesh = m, ufl_element = elm\<rparr>"

definition num_sub_spaces :: "space \<Rightarrow> nat" where
  "num_sub_spaces V = length (sub_elements (ufl_element V))"

subsection \<open>numpy values\<close>

datatype 'a npval =
    Scalar 'a
  | NDArray "nat list" "'a list"   \<comment> \<open>shape and flat data\<close>

type_synonym 'a kernel = "'a npval list \<Rightarrow> error + 'a npval"

datatype ufunc1 = np_abs | np_sin | np_cos | np_sqrt | np_exp | np_log | np_tan | np_sinh
  | np_cosh | np_tanh | np_arcsin | np_arccos | np_arctan

datatype ufunc2 = np_add | np_divide | np_multiply | np_power | np_arctan2

datatype tensor_kernel = np_linalg_inv | np_transpose | lambda_Sym | lambda_Skew
  | lambda_Deviatoric | lambda_Cofactor | np_linalg_det | np_trace | np_dot | np_cross
  | np_outer | np_inner

text \<open>
  The libraries, as parameters of the model: the scalar meaning of each elementwise
  kernel, numpy's general broadcasting for arrays that are not one-dimensional, the tensor
  kernels of lines 30 to 41 (the four \<^verbatim>\<open>lambda\<close>s included, which are numpy
  expressions), and dolfin's dof numbering: \<^verbatim>\<open>V.dofmap().dofs()\<close>,
  \<^verbatim>\<open>V.sub(comp).dofmap().dofs()\<close> and the size of \<^verbatim>\<open>Function(V).vector()\<close>.
  Every theorem below that mentions a library \<open>L\<close> holds for all of them.
\<close>

record 'a lib =
  unary :: "ufunc1 \<Rightarrow> 'a \<Rightarrow> 'a"
  binary :: "ufunc2 \<Rightarrow> 'a \<Rightarrow> 'a \<Rightarrow> 'a"
  broadcast :: "ufunc2 \<Rightarrow> 'a npval \<Rightarrow> 'a npval \<Rightarrow> error + 'a npval"
  tensor :: "tensor_kernel \<Rightarrow> 'a kernel"
  dofs :: "space \<Rightarrow> nat list"
  sub_dofs :: "space \<Rightarrow> nat \<Rightarrow> nat list"
  dim :: "space \<Rightarrow> nat"

text \<open>
  An elementwise kernel of one argument maps over the data. One of two arguments
  broadcasts a scalar against an array, combines arrays of one shape entry by entry, and
  stretches a one-dimensional array of length 1; two one-dimensional arrays of other
  unequal lengths are numpy's \<^verbatim>\<open>ValueError\<close> (operands could not be broadcast
  together). A UFL node always has as many operands as its kernel has arguments; any other
  argument list is refused.
\<close>

fun apply_ufunc1 :: "('a \<Rightarrow> 'a) \<Rightarrow> 'a kernel" where
  "apply_ufunc1 f [Scalar x] = Inr (Scalar (f x))"
| "apply_ufunc1 f [NDArray sh xs] = Inr (NDArray sh (map f xs))"
| "apply_ufunc1 f args = Inl TypeError"

fun apply_ufunc2 :: "'a lib \<Rightarrow> ufunc2 \<Rightarrow> 'a kernel" where
  "apply_ufunc2 L u [Scalar x, Scalar y] = Inr (Scalar (binary L u x y))"
| "apply_ufunc2 L u [Scalar x, NDArray sh ys] = Inr (NDArray sh (map (binary L u x) ys))"
| "apply_ufunc2 L u [NDArray sh xs, Scalar y] = Inr (NDArray sh (map (\<lambda>x. binary L u x y) xs))"
| "apply_ufunc2 L u [NDArray sx xs, NDArray sy ys] =
     (if sx = sy then Inr (NDArray sx (map2 (binary L u) xs ys))
      else if length sx = 1 \<and> length sy = 1 then
        (case (xs, ys) of
           ([x], _) \<Rightarrow> Inr (NDArray sy (map (binary L u x) ys))
         | (_, [y]) \<Rightarrow> Inr (NDArray sx (map (\<lambda>x. binary L u x y) xs))
         | _ \<Rightarrow> Inl ValueError)
      else broadcast L u (NDArray sx xs) (NDArray sy ys))"
| "apply_ufunc2 L u args = Inl TypeError"

subsection \<open>The kernel tables (lines 8 to 41)\<close>

datatype kind =
    Sum | Abs | Division | Product | Power | Sin | Cos | Sqrt | Exp | Ln | Tan | Sinh | Cosh
  | Tanh | Asin | Acos | Atan | Atan2
  | Inverse | Transposed | Sym | Skew | Deviatoric | Cofactor | Determinant | Trace | Dot
  | Cross | Outer | Inner
  | Indexed | ComponentTensor | MultiIndex | OtherKind string
      \<comment> \<open>UFL types that are in neither table\<close>

definition SAME_SPACE_RULES :: "'a lib \<Rightarrow> kind \<rightharpoonup> 'a kernel" where
  "SAME_SPACE_RULES L = map_of
     [(Sum, apply_ufunc2 L np_add),
      (Abs, apply_ufunc1 (unary L np_abs)),
      (Division, apply_ufunc2 L np_divide),
      (Product, apply_ufunc2 L np_multiply),
      (Power, apply_ufunc2 L np_power),
      (Sin, apply_ufunc1 (unary L np_sin)),
      (Cos, apply_ufunc1 (unary L np_cos)),
      (Sqrt, apply_ufunc1 (unary L np_sqrt)),
      (Exp, apply_ufunc1 (unary L np_exp)),
      (Ln, apply_ufunc1 (unary L np_log)),
      (Tan, apply_ufunc1 (unary L np_tan)),
      (Sinh, apply_ufunc1 (unary L np_sinh)),
      (Cosh, apply_ufunc1 (unary L np_cosh)),
      (Tanh, apply_ufunc1 (unary L np_tanh)),
      (Asin, apply_ufunc1 (unary L np_arcsin)),
      (Acos, apply_ufunc1 (unary L np_arccos)),
      (Atan, apply_ufunc1 (unary L np_arctan)),
      (Atan2, apply_ufunc2 L np_arctan2)]"

definition DIFFERENT_SPACE_RULES :: "'a lib \<Rightarrow> kind \<rightharpoonup> 'a kernel" where
  "DIFFERENT_SPACE_RULES L = map_of
     [(Inverse, tensor L np_linalg_inv),
      (Transposed, tensor L np_transpose),
      (Sym, tensor L lambda_Sym),
      (Skew, tensor L lambda_Skew),
      (Deviatoric, tensor L lambda_Deviatoric),
      (Cofactor, tensor L lambda_Cofactor),
      (Determinant, tensor L np_linalg_det),
      (Trace, tensor L np_trace),
      (Dot, tensor L np_dot),
      (Cross, tensor L np_cross),
      (Outer, tensor L np_outer),
      (Inner, tensor L np_inner)]"

subsection \<open>Expressions, Functions and the object store\<close>

text \<open>
  A dolfin Function is an object: it is known by its reference, and the store holds its
  function space and its coefficient vector. The store is the list of all Functions
  created so far; \<^verbatim>\<open>Function(V)\<close> appends one.
\<close>

record 'a dolfin_function =
  function_space :: space
  vector :: "'a list"

type_synonym 'a store = "'a dolfin_function list"

datatype 'a expr =
    Function nat                              \<comment> \<open>a stored Function, by reference\<close>
  | PyNumber 'a                               \<comment> \<open>a Python \<^verbatim>\<open>int\<close> or \<^verbatim>\<open>float\<close>\<close>
  | ScalarValue 'a                            \<comment> \<open>UFL's \<^verbatim>\<open>ScalarValue\<close>/\<^verbatim>\<open>IntValue\<close> wrapper\<close>
  | Operator kind "'a expr list" "nat list"   \<comment> \<open>type, \<^verbatim>\<open>ufl_operands\<close>, \<^verbatim>\<open>ufl_shape\<close>\<close>

datatype 'a result = Fun nat | Num 'a

definition deref :: "'a store \<Rightarrow> nat \<Rightarrow> 'a dolfin_function option" where
  "deref h r = (if r < length h then Some (h ! r) else None)"


subsection \<open>Helpers of the interpreter (lines 76 to 109 and 160 to 202)\<close>

text \<open>
  \<^verbatim>\<open>make_function\<close>, lines 76 to 82. Modelled from the spec, for the two dolfin calls:
  \<^verbatim>\<open>Function(V)\<close> creates a new object with a zero vector of the space's local size,
  and \<^verbatim>\<open>set_local\<close> sets the full coefficient array of that object in one operation
  and refuses anything but an array of that size (a Function's coefficient array has
  exactly as many entries as its space has dofs).
\<close>

definition new_Function :: "'a::zero lib \<Rightarrow> space \<Rightarrow> 'a store \<Rightarrow> nat \<times> 'a store" where
  "new_Function L V h =
     (length h, h @ [\<lparr>function_space = V, vector = replicate (dim L V) 0\<rparr>])"

definition set_local :: "'a lib \<Rightarrow> nat \<Rightarrow> 'a npval \<Rightarrow> 'a store \<Rightarrow> error + 'a store" where
  "set_local L r coefs h =
     (case deref h r of
        None \<Rightarrow> Inl DanglingReference
      | Some f \<Rightarrow>
          (case coefs of
             Scalar x \<Rightarrow> Inl TypeError
           | NDArray sh xs \<Rightarrow>
               if length xs = dim L (function_space f)
               then Inr (h[r := f\<lparr>vector := xs\<rparr>])
               else Inl RuntimeError))"

definition make_function ::
  "'a::zero lib \<Rightarrow> space \<Rightarrow> 'a npval \<Rightarrow> 'a store \<Rightarrow> error + ('a result \<times> 'a store)" where
  "make_function L V coefs h =
     (case new_Function L V h of
        (f, h1) \<Rightarrow>
          (case set_local L f coefs h1 of
             Inl e \<Rightarrow> Inl e
           | Inr h2 \<Rightarrow> Inr (Fun f, h2)))"

text \<open>\<^verbatim>\<open>coefs_of\<close>: \<^verbatim>\<open>get_local()\<close> hands out a copy of the vector; a number passes.\<close>

fun coefs_of :: "'a store \<Rightarrow> 'a result \<Rightarrow> error + 'a npval" where
  "coefs_of h (Fun r) =
     (case deref h r of
        None \<Rightarrow> Inl DanglingReference
      | Some f \<Rightarrow> Inr (NDArray [length (vector f)] (vector f)))"
| "coefs_of h (Num x) = Inr (Scalar x)"

text \<open>
  \<^verbatim>\<open>space_of\<close>: the loop over the Functions among \<open>foos\<close> carries \<^verbatim>\<open>(elm, mesh)\<close>,
  \<open>None\<close> before the first Function. With no Function at all the final
  \<^verbatim>\<open>FunctionSpace(None, None)\<close> is refused by dolfin.
\<close>

fun space_of_loop ::
  "'a store \<Rightarrow> (element \<times> nat) option \<Rightarrow> 'a result list \<Rightarrow> error + (element \<times> nat) option" where
  "space_of_loop h ref [] = Inr ref"
| "space_of_loop h ref (Num x # foos) = space_of_loop h ref foos"
| "space_of_loop h ref (Fun r # foos) =
     (case deref h r of
        None \<Rightarrow> Inl DanglingReference
      | Some f \<Rightarrow>
          (let elm' = ufl_element (function_space f); mesh' = mesh (function_space f)
           in case ref of
                None \<Rightarrow> space_of_loop h (Some (elm', mesh')) foos
              | Some (elm, m) \<Rightarrow>
                  if elm' = elm \<and> m = mesh' then space_of_loop h ref foos
                  else Inl AssertionError))"

definition space_of :: "'a store \<Rightarrow> 'a result list \<Rightarrow> error + space" where
  "space_of h foos =
     (case space_of_loop h None foos of
        Inl e \<Rightarrow> Inl e
      | Inr None \<Rightarrow> Inl RuntimeError
      | Inr (Some (elm, m)) \<Rightarrow> Inr (FunctionSpace m elm))"

text \<open>
  \<^verbatim>\<open>numpy_op_indices\<close>: the iterator over the dofs of \<open>V\<close>, as the list of what it
  yields. \<^verbatim>\<open>izip\<close> of the component dof lists stops with the shortest.
\<close>

datatype index = Dof nat | Dofs "nat list"

definition izip :: "'x list list \<Rightarrow> 'x list list" where
  "izip xss =
     (case xss of
        [] \<Rightarrow> []
      | _ \<Rightarrow> map (\<lambda>k. map (\<lambda>xs. xs ! k) xss) [0..<min_list (map length xss)])"

definition numpy_op_indices :: "'a lib \<Rightarrow> space \<Rightarrow> nat list \<Rightarrow> error + index list" where
  "numpy_op_indices L V shape =
     (let nsubs = num_sub_spaces V
      in if nsubs \<noteq> 0 then
           (if length shape \<noteq> 0
            then Inr (map Dofs (izip (map (\<lambda>comp. sub_dofs L V comp) [0..<nsubs])))
            else Inl AssertionError)
         else
           (if length shape = 0 then Inr (map Dof (dofs L V)) else Inl AssertionError))"

text \<open>
  \<^verbatim>\<open>common_sub_element\<close>: \<^verbatim>\<open>V_, = set(...)\<close> unpacks a set of exactly one element
  and is a \<^verbatim>\<open>ValueError\<close> otherwise. Only elements are compared.
\<close>

definition the_sub_element :: "space \<Rightarrow> error + element" where
  "the_sub_element space =
     (if num_sub_spaces space = 0 then Inr (ufl_element space)
      else (case remdups (sub_elements (ufl_element space)) of
              [V'] \<Rightarrow> Inr V'
            | _ \<Rightarrow> Inl ValueError))"

fun common_sub_element_loop :: "element option \<Rightarrow> space list \<Rightarrow> error + element option" where
  "common_sub_element_loop V [] = Inr V"
| "common_sub_element_loop V (space # spaces) =
     (case the_sub_element space of
        Inl e \<Rightarrow> Inl e
      | Inr V' \<Rightarrow>
          if V = None \<or> V = Some V' then common_sub_element_loop (Some V') spaces
          else Inl AssertionError)"

definition common_sub_element :: "space list \<Rightarrow> error + element option" where
  "common_sub_element spaces = common_sub_element_loop None spaces"

text \<open>\<^verbatim>\<open>make_space\<close>, lines 191 to 202, with the arguments the constructors are given.\<close>

definition make_space :: "element \<Rightarrow> nat list \<Rightarrow> nat \<Rightarrow> error + space" where
  "make_space V shape m =
     (if shape = [] then Inr (FunctionSpace m V)
      else if length shape = 1 then Inr (FunctionSpace m (VectorElement_init V (length shape)))
      else if length shape = 2 then Inr (FunctionSpace m (TensorElement_init V shape))
      else Inl ValueError)"


subsection \<open>numpy indexing, reshaping and item assignment\<close>

text \<open>
  The arrays indexed here are coefficient arrays, one-dimensional. An integer index reads
  one entry, a list of indices reads a one-dimensional array; an index past the end is an
  \<^verbatim>\<open>IndexError\<close>. \<^verbatim>\<open>x.reshape(s)\<close> keeps the data and needs as many entries as
  \<open>s\<close> has places.
\<close>

fun getitem :: "'a npval \<Rightarrow> index \<Rightarrow> error + 'a npval" where
  "getitem (NDArray sh xs) (Dof i) =
     (if i < length xs then Inr (Scalar (xs ! i)) else Inl IndexError)"
| "getitem (NDArray sh xs) (Dofs js) =
     (if \<forall>i \<in> set js. i < length xs
      then Inr (NDArray [length js] (map (\<lambda>i. xs ! i) js))
      else Inl IndexError)"
| "getitem (Scalar x) i = Inl TypeError"

fun reshape :: "nat list \<Rightarrow> 'a npval \<Rightarrow> error + 'a npval" where
  "reshape s (NDArray sh xs) =
     (if prod_list s = length xs then Inr (NDArray s xs) else Inl ValueError)"
| "reshape s (Scalar x) =
     (if prod_list s = 1 then Inr (NDArray s [x]) else Inl ValueError)"

fun flatten :: "'a npval \<Rightarrow> 'a npval" where
  "flatten (NDArray sh xs) = NDArray [length xs] xs"
| "flatten (Scalar x) = NDArray [1] [x]"

text \<open>
  \<^verbatim>\<open>coefs_res[dof] = value\<close>: at an integer index the value is a scalar or an array of
  one entry; at a list of indices the value has one entry per index or a single entry for
  all of them.
\<close>

definition assign :: "'a list \<Rightarrow> nat list \<Rightarrow> 'a list \<Rightarrow> 'a list" where
  "assign res js xs = fold (\<lambda>(i, x) r. r[i := x]) (zip js xs) res"

fun setitem :: "'a list \<Rightarrow> index \<Rightarrow> 'a npval \<Rightarrow> error + 'a list" where
  "setitem res (Dof i) v =
     (if length res \<le> i then Inl IndexError
      else (case v of
              Scalar x \<Rightarrow> Inr (res[i := x])
            | NDArray sh xs \<Rightarrow> (case xs of [x] \<Rightarrow> Inr (res[i := x]) | _ \<Rightarrow> Inl ValueError)))"
| "setitem res (Dofs js) v =
     (if \<exists>i \<in> set js. length res \<le> i then Inl IndexError
      else (case v of
              Scalar x \<Rightarrow> Inr (assign res js (replicate (length js) x))
            | NDArray sh xs \<Rightarrow>
                if length xs = length js then Inr (assign res js xs)
                else (case xs of
                        [x] \<Rightarrow> Inr (assign res js (replicate (length js) x))
                      | _ \<Rightarrow> Inl ValueError)))"

subsection \<open>The argument generators of \<^verbatim>\<open>numpy_reshaped\<close> (lines 118 to 139)\<close>

text \<open>
  Lines 133 and 135 build generator expressions. Python evaluates only the iterable of a
  generator expression, here \<^verbatim>\<open>indices\<close>, when the generator is created; the names
  \<^verbatim>\<open>reshape\<close> and \<^verbatim>\<open>arg_coefs\<close> in its body are variables of the enclosing call
  of \<^verbatim>\<open>numpy_reshaped\<close> and are read each time the generator is advanced, that is
  inside the loop of line 154, after the loop of line 121 has finished. A generator is
  therefore its remaining indices and the branch that built it; the values of
  \<^verbatim>\<open>arg_coefs\<close> and of the default argument \<^verbatim>\<open>s\<close> of the current \<^verbatim>\<open>reshape\<close>
  are passed when it is advanced.
\<close>

datatype generator =
    Reshaped "index list"   \<comment> \<open>line 133: \<^verbatim>\<open>(reshape(arg_coefs[index]) for index in indices)\<close>\<close>
  | Direct "index list"     \<comment> \<open>line 135: \<^verbatim>\<open>(arg_coefs[index] for index in indices)\<close>\<close>

text \<open>Advancing a generator: \<open>None\<close> is \<^verbatim>\<open>StopIteration\<close>.\<close>

fun next_value ::
  "'a npval \<Rightarrow> nat list option \<Rightarrow> generator \<Rightarrow> (error + 'a npval \<times> generator) option" where
  "next_value arg_coefs s (Reshaped []) = None"
| "next_value arg_coefs s (Reshaped (i # rest)) =
     Some (case s of
             None \<Rightarrow> Inl NameError
           | Some shape \<Rightarrow>
               (case getitem arg_coefs i of
                  Inl e \<Rightarrow> Inl e
                | Inr x \<Rightarrow>
                    (case reshape shape x of
                       Inl e \<Rightarrow> Inl e
                     | Inr y \<Rightarrow> Inr (y, Reshaped rest))))"
| "next_value arg_coefs s (Direct []) = None"
| "next_value arg_coefs s (Direct (i # rest)) =
     Some (case getitem arg_coefs i of
             Inl e \<Rightarrow> Inl e
           | Inr x \<Rightarrow> Inr (x, Direct rest))"

text \<open>
  \<^verbatim>\<open>izip(*get_args)\<close> advances the generators from left to right and stops at the first
  that is exhausted; with no generator at all it yields nothing.
\<close>

fun izip_next ::
  "'a npval \<Rightarrow> nat list option \<Rightarrow> generator list \<Rightarrow>
   (error + 'a npval list \<times> generator list) option" where
  "izip_next arg_coefs s [] = Some (Inr ([], []))"
| "izip_next arg_coefs s (g # gs) =
     (case next_value arg_coefs s g of
        None \<Rightarrow> None
      | Some (Inl e) \<Rightarrow> Some (Inl e)
      | Some (Inr (v, g')) \<Rightarrow>
          (case izip_next arg_coefs s gs of
             None \<Rightarrow> None
           | Some (Inl e) \<Rightarrow> Some (Inl e)
           | Some (Inr (vs, gs')) \<Rightarrow> Some (Inr (v # vs, g' # gs'))))"

definition next_args ::
  "'a npval \<Rightarrow> nat list option \<Rightarrow> generator list \<Rightarrow>
   (error + 'a npval list \<times> generator list) option" where
  "next_args arg_coefs s get_args =
     (if get_args = [] then None else izip_next arg_coefs s get_args)"

text \<open>
  The loop of lines 121 to 137. Its state is what the later lines read: the last
  \<^verbatim>\<open>arg_coefs\<close> and \<^verbatim>\<open>V\<close> (unbound before the first operand), the shape bound in
  the last \<^verbatim>\<open>reshape\<close> (unbound until an operand has a shape), and \<^verbatim>\<open>get_args\<close>.
  \<^verbatim>\<open>arg.ufl_shape\<close> of a Function is the value shape of its element.
\<close>

fun function_space_of :: "'a store \<Rightarrow> 'a result \<Rightarrow> error + space" where
  "function_space_of h (Fun r) =
     (case deref h r of None \<Rightarrow> Inl DanglingReference | Some f \<Rightarrow> Inr (function_space f))"
| "function_space_of h (Num x) = Inl AttributeError"

type_synonym 'a frame = "('a npval \<times> space) option \<times> nat list option \<times> generator list"

fun collect_args :: "'a lib \<Rightarrow> 'a store \<Rightarrow> 'a frame \<Rightarrow> 'a result list \<Rightarrow> error + 'a frame" where
  "collect_args L h fr [] = Inr fr"
| "collect_args L h (cur, s, get_args) (arg # args) =
     (case coefs_of h arg of
        Inl e \<Rightarrow> Inl e
      | Inr arg_coefs \<Rightarrow>
          (case function_space_of h arg of
             Inl e \<Rightarrow> Inl e
           | Inr V \<Rightarrow>
               (let shape = value_shape (ufl_element V)
                in case numpy_op_indices L V shape of
                     Inl e \<Rightarrow> Inl e
                   | Inr indices \<Rightarrow>
                       if shape \<noteq> []
                       then collect_args L h
                              (Some (arg_coefs, V), Some shape, get_args @ [Reshaped indices]) args
                       else collect_args L h
                              (Some (arg_coefs, V), s, get_args @ [Direct indices]) args)))"

text \<open>
  The loop of lines 154 and 155: \<^verbatim>\<open>izip(dofs, args)\<close> takes the next \<^verbatim>\<open>dof\<close> first
  and the next tuple of operand values second, and ends when either is exhausted.
\<close>

fun fill ::
  "'a kernel \<Rightarrow> bool \<Rightarrow> 'a npval \<Rightarrow> nat list option \<Rightarrow> index list \<Rightarrow> generator list \<Rightarrow>
   'a list \<Rightarrow> error + 'a list" where
  "fill op' tensorial arg_coefs s [] get_args coefs_res = Inr coefs_res"
| "fill op' tensorial arg_coefs s (dof # dofs') get_args coefs_res =
     (case next_args arg_coefs s get_args of
        None \<Rightarrow> Inr coefs_res
      | Some (Inl e) \<Rightarrow> Inl e
      | Some (Inr (dof_args, get_args')) \<Rightarrow>
          (case op' dof_args of
             Inl e \<Rightarrow> Inl e
           | Inr v \<Rightarrow>
               (case setitem coefs_res dof (if tensorial then flatten v else v) of
                  Inl e \<Rightarrow> Inl e
                | Inr coefs_res' \<Rightarrow> fill op' tensorial arg_coefs s dofs' get_args' coefs_res')))"

text \<open>
  The tuple \<^verbatim>\<open>dof_args\<close> of pass \<open>k\<close> of that loop, counted from 0, provided the
  passes before it went through: the generators are advanced \<open>k\<close> times and once more.
\<close>

fun kth_args ::
  "'a npval \<Rightarrow> nat list option \<Rightarrow> generator list \<Rightarrow> nat \<Rightarrow>
   (error + 'a npval list \<times> generator list) option" where
  "kth_args arg_coefs s get_args 0 = next_args arg_coefs s get_args"
| "kth_args arg_coefs s get_args (Suc k) =
     (case next_args arg_coefs s get_args of
        Some (Inr (dof_args, get_args')) \<Rightarrow> kth_args arg_coefs s get_args' k
      | stop_or_raise \<Rightarrow> stop_or_raise)"

fun map_err :: "('x \<Rightarrow> error + 'y) \<Rightarrow> 'x list \<Rightarrow> error + 'y list" where
  "map_err f [] = Inr []"
| "map_err f (x # xs) =
     (case f x of
        Inl e \<Rightarrow> Inl e
      | Inr y \<Rightarrow> (case map_err f xs of Inl e \<Rightarrow> Inl e | Inr ys \<Rightarrow> Inr (y # ys)))"

text \<open>
  Lines 115 to 157, on the evaluated operands. \<^verbatim>\<open>V.mesh()\<close> on line 143 reads the
  \<^verbatim>\<open>V\<close> left by the last pass of the loop. \<^verbatim>\<open>Function(V_res)\<close> on line 153 creates
  a Function whose vector is copied and which is not used again.
\<close>

definition numpy_reshaped_args ::
  "'a::zero lib \<Rightarrow> 'a result list \<Rightarrow> nat list \<Rightarrow> 'a kernel \<Rightarrow> 'a store \<Rightarrow>
   error + ('a result \<times> 'a store)" where
  "numpy_reshaped_args L args shape_res op' h =
     (case map_err (\<lambda>arg. space_of h [arg]) args of
        Inl e \<Rightarrow> Inl e
      | Inr spaces \<Rightarrow>
     (case common_sub_element spaces of
        Inl e \<Rightarrow> Inl e
      | Inr sub_elm \<Rightarrow>
     (case collect_args L h (None, None, []) args of
        Inl e \<Rightarrow> Inl e
      | Inr (cur, s, get_args) \<Rightarrow>
     (case cur of
        None \<Rightarrow> Inl NameError
      | Some (arg_coefs, V) \<Rightarrow>
     (case sub_elm of
        None \<Rightarrow> Inl RuntimeError
      | Some sub \<Rightarrow>
     (case make_space sub shape_res (mesh V) of
        Inl e \<Rightarrow> Inl e
      | Inr V_res \<Rightarrow>
     (case numpy_op_indices L V_res shape_res of
        Inl e \<Rightarrow> Inl e
      | Inr dofs' \<Rightarrow>
     (case new_Function L V_res h of
        (tmp, h1) \<Rightarrow>
     (case fill op' (shape_res \<noteq> []) arg_coefs s dofs' get_args
             (replicate (dim L V_res) 0) of
        Inl e \<Rightarrow> Inl e
      | Inr coefs_res \<Rightarrow>
          make_function L V_res (NDArray [length coefs_res] coefs_res) h1)))))))))"

subsection \<open>\<^verbatim>\<open>Eval\<close> and \<^verbatim>\<open>numpy_reshaped\<close> (lines 44 to 73 and 112 to 114)\<close>

text \<open>
  \<^verbatim>\<open>map(Eval, expr.ufl_operands)\<close> evaluates the operands from left to right, each with
  the default tables whatever tables the caller passed. \<^verbatim>\<open>numpy_reshaped\<close> reads
  \<^verbatim>\<open>expr.ufl_operands\<close> and \<^verbatim>\<open>expr.ufl_shape\<close> of its node and nothing else.
\<close>

fun Eval ::
  "'a::zero lib \<Rightarrow> (kind \<rightharpoonup> 'a kernel) \<Rightarrow> (kind \<rightharpoonup> 'a kernel) \<Rightarrow> 'a expr \<Rightarrow> 'a store \<Rightarrow>
   error + ('a result \<times> 'a store)"
and numpy_reshaped ::
  "'a lib \<Rightarrow> 'a expr list \<Rightarrow> nat list \<Rightarrow> 'a kernel \<Rightarrow> 'a store \<Rightarrow>
   error + ('a result \<times> 'a store)"
and map_Eval ::
  "'a lib \<Rightarrow> 'a expr list \<Rightarrow> 'a store \<Rightarrow> error + ('a result list \<times> 'a store)" where
  "Eval L ss_rules ds_rules (Function r) h = Inr (Fun r, h)"
| "Eval L ss_rules ds_rules (PyNumber x) h = Inr (Num x, h)"
| "Eval L ss_rules ds_rules (ScalarValue x) h = Inr (Num x, h)"
| "Eval L ss_rules ds_rules (Operator expr_type ufl_operands ufl_shape) h =
     (case ds_rules expr_type of
        Some op' \<Rightarrow> numpy_reshaped L ufl_operands ufl_shape op' h
      | None \<Rightarrow>
          (case map_Eval L ufl_operands h of
             Inl e \<Rightarrow> Inl e
           | Inr (args, h1) \<Rightarrow>
               (case ss_rules expr_type of
                  None \<Rightarrow> Inl KeyError
                | Some op' \<Rightarrow>
                    (case map_err (coefs_of h1) args of
                       Inl e \<Rightarrow> Inl e
                     | Inr coefs \<Rightarrow>
                         (case op' coefs of
                            Inl e \<Rightarrow> Inl e
                          | Inr V_coefs \<Rightarrow>
                              (case space_of h1 args of
                                 Inl e \<Rightarrow> Inl e
                               | Inr V \<Rightarrow> make_function L V V_coefs h1))))))"
| "numpy_reshaped L ufl_operands ufl_shape op' h =
     (case map_Eval L ufl_operands h of
        Inl e \<Rightarrow> Inl e
      | Inr (args, h1) \<Rightarrow> numpy_reshaped_args L args ufl_shape op' h1)"
| "map_Eval L [] h = Inr ([], h)"
| "map_Eval L (e # es) h =
     (case Eval L (SAME_SPACE_RULES L) (DIFFERENT_SPACE_RULES L) e h of
        Inl err \<Rightarrow> Inl err
      | Inr (v, h1) \<Rightarrow>
          (case map_Eval L es h1 of
             Inl err \<Rightarrow> Inl err
           | Inr (vs, h2) \<Rightarrow> Inr (v # vs, h2)))"


subsection \<open>Idempotence on terminals\<close>

text \<open>A value handed back by \<^verbatim>\<open>Eval\<close> is itself a terminal expression.\<close>

fun terminal_of :: "'a result \<Rightarrow> 'a expr" where
  "terminal_of (Fun r) = Function r"
| "terminal_of (Num x) = PyNumber x"

subsection \<open>UFL's product of a number and a tensor-valued Function\<close>


subsection \<open>A concrete library and store\<close>

text \<open>
  An instance of the libraries, for evaluating the interpreter on concrete inputs: integer
  scalars with \<^verbatim>\<open>np.add\<close> and \<^verbatim>\<open>np.multiply\<close> as \<open>+\<close> and \<open>*\<close>,
  \<^verbatim>\<open>np.inner\<close>, \<^verbatim>\<open>np.trace\<close> and \<^verbatim>\<open>np.transpose\<close> on the arrays used below, and
  dolfin's usual numbering: a scalar space has one dof per mesh node, numbered from 0, and
  the dofs of component \<open>c\<close> of a space of \<open>N\<close> components are \<open>c, c + N, c + 2N, ...\<close>.
  Meshes 1 and 2 are two interval meshes of one cell, two nodes each; mesh 3 is an interval
  mesh of two cells, three nodes. \<open>P1\<close> is the linear Lagrange element on an interval.
\<close>

fun flat_data :: "'a npval \<Rightarrow> 'a list" where
  "flat_data (Scalar x) = [x]"
| "flat_data (NDArray sh xs) = xs"

definition nodes :: "nat \<Rightarrow> nat" where
  "nodes m = (if m = 3 then 3 else 2)"

definition components :: "space \<Rightarrow> nat" where
  "components V = max 1 (num_sub_spaces V)"

fun example_tensor :: "tensor_kernel \<Rightarrow> int kernel" where
  "example_tensor np_inner [a, b] =
     Inr (Scalar (sum_list (map2 (*) (flat_data a) (flat_data b))))"
| "example_tensor np_trace [NDArray sh [a, b, c, d]] = Inr (Scalar (a + d))"
| "example_tensor np_transpose [NDArray sh [a, b, c, d]] = Inr (NDArray sh [a, c, b, d])"
| "example_tensor k args = Inl LinAlgError"

fun example_binary :: "ufunc2 \<Rightarrow> int \<Rightarrow> int \<Rightarrow> int" where
  "example_binary np_add x y = x + y"
| "example_binary np_multiply x y = x * y"
| "example_binary u x y = 0"

definition example_lib :: "int lib" where
  "example_lib =
     \<lparr>unary = (\<lambda>u x. if u = np_abs then abs x else x),
      binary = example_binary,
      broadcast = (\<lambda>u a b. Inl ValueError),
      tensor = example_tensor,
      dofs = (\<lambda>V. [0..<components V * nodes (mesh V)]),
      sub_dofs = (\<lambda>V comp. map (\<lambda>p. p * components V + comp) [0..<nodes (mesh V)]),
      dim = (\<lambda>V. components V * nodes (mesh V))\<rparr>"

definition P1 :: element where
  "P1 = FiniteElement ''CG'' ''interval'' 1"

text \<open>
  Functions 0 and 1 are vector fields on mesh 1, Function 2 a vector field on mesh 2;
  Functions 3 and 4 are scalar fields on mesh 1, Function 5 one on mesh 3 and Function 6
  one on mesh 2.
\<close>

definition example_store :: "int store" where
  "example_store =
     [\<lparr>function_space = FunctionSpace 1 (VectorElement P1 2), vector = [1, 2, 3, 4]\<rparr>,
      \<lparr>function_space = FunctionSpace 1 (VectorElement P1 2), vector = [5, 6, 7, 8]\<rparr>,
      \<lparr>function_space = FunctionSpace 2 (VectorElement P1 2), vector = [10, 20, 30, 40]\<rparr>,
      \<lparr>function_space = FunctionSpace 1 P1, vector = [1, 2]\<rparr>,
      \<lparr>function_space = FunctionSpace 1 P1, vector = [10, 20]\<rparr>,
      \<lparr>function_space = FunctionSpace 3 P1, vector = [7, 8, 9]\<rparr>,
      \<lparr>function_space = FunctionSpace 2 P1, vector = [5, 6]\<rparr>]"

definition example_Eval :: "int expr \<Rightarrow> int store \<Rightarrow> error + (int result \<times> int store)" where
  "example_Eval e h =
     Eval example_lib (SAME_SPACE_RULES example_lib) (DIFFERENT_SPACE_RULES example_lib) e h"


section \<open>Properties\<close>

subsection \<open>Terminals\<close>

text \<open>
  C6. \<^verbatim>\<open>Eval\<close> of a stored Function returns the reference it was given, of a number
  the number, and leaves the store as it was: nothing is copied and no Function is
  created. Evaluating the returned value again, as a terminal, returns it again.
\<close>

theorem Eval_terminal_identity:
  "Eval L ss ds (Function r) h = Inr (Fun r, h) \<and>
   Eval L ss ds (PyNumber x) h = Inr (Num x, h) \<and>
   Eval L ss ds (terminal_of v) h = Inr (v, h)"
  by (cases v) simp_all

subsection \<open>The result space\<close>

lemma make_space_rank1:
  "length shape = 1 \<Longrightarrow>
   make_space V shape m =
     Inr (FunctionSpace m (VectorElement V (geometric_dimension (cell_of V))))"
  by (auto simp: make_space_def VectorElement_init_def)

lemma make_space_rank2:
  "length shape = 2 \<Longrightarrow>
   make_space V shape m =
     Inr (FunctionSpace m
            (TensorElement V [geometric_dimension (cell_of V),
                              geometric_dimension (cell_of V)]))"
  by (auto simp: make_space_def TensorElement_init_def)

lemma num_sub_spaces_tensor:
  "num_sub_spaces (FunctionSpace m (TensorElement V shape)) = prod_list shape"
  by (simp add: num_sub_spaces_def FunctionSpace_def)

text \<open>
  For a declared shape of two dimensions the result space is the tensor space of shape
  \<open>(d, d)\<close>, with \<open>d * d\<close> sub-spaces, where \<open>d\<close> is the geometric dimension of the
  cell of the sub-element: line 198 hands the declared shape over in the position of the
  cell, where it is not read. The count is the product of the declared shape when that
  shape is \<open>(d, d)\<close>.
\<close>

theorem make_space_tensor_subspaces:
  assumes "length shape = 2" and "d = geometric_dimension (cell_of V)"
  shows "make_space V shape m = Inr (FunctionSpace m (TensorElement V [d, d])) \<and>
         num_sub_spaces (FunctionSpace m (TensorElement V [d, d])) = d * d \<and>
         (shape = [d, d] \<longrightarrow>
            num_sub_spaces (FunctionSpace m (TensorElement V [d, d])) = prod_list shape)"
  using assms by (simp add: make_space_rank2 num_sub_spaces_tensor)

theorem make_space_tensor_subspaces_witness:
  "length [2::nat, 2] = 2 \<and>
   2 = geometric_dimension (cell_of (FiniteElement ''CG'' ''triangle'' 1)) \<and>
   make_space (FiniteElement ''CG'' ''triangle'' 1) [2, 2] 1 =
     Inr (FunctionSpace 1 (TensorElement (FiniteElement ''CG'' ''triangle'' 1) [2, 2])) \<and>
   num_sub_spaces (FunctionSpace 1 (TensorElement (FiniteElement ''CG'' ''triangle'' 1) [2, 2])) =
     prod_list [2, 2]"
proof -
  have l: "length [2::nat, 2] = 2" by simp
  have d: "2 = geometric_dimension (cell_of (FiniteElement ''CG'' ''triangle'' 1))"
    by (simp add: geometric_dimension_def)
  from make_space_tensor_subspaces [OF l d, of 1]
  have "make_space (FiniteElement ''CG'' ''triangle'' 1) [2, 2] 1 =
          Inr (FunctionSpace 1 (TensorElement (FiniteElement ''CG'' ''triangle'' 1) [2, 2]))"
    and "num_sub_spaces
           (FunctionSpace 1 (TensorElement (FiniteElement ''CG'' ''triangle'' 1) [2, 2])) =
         prod_list [2, 2]"
    by blast+
  with l d show ?thesis by blast
qed

text \<open>
  C1. The sub-space count of the result space is to be the product of the declared shape.
  For a shape \<open>(n,)\<close> line 196 hands \<^verbatim>\<open>len(shape)\<close>, which is 1 whatever \<open>n\<close> is, to
  \<^verbatim>\<open>VectorElement\<close>, and in the position of the cell: the length \<open>n\<close> never reaches
  the constructor, and the space built is the vector space of as many components as the
  cell has geometric dimensions (\<open>make_space_rank1\<close>). Over the interval element
  \<open>P1\<close> the space built for the shape \<open>(3,)\<close> has one sub-space, and it is the space
  built for the shape \<open>(2,)\<close> too.
\<close>

theorem make_space_vector_length:
  "make_space P1 [3] 1 = Inr (FunctionSpace 1 (VectorElement P1 1)) \<and>
   num_sub_spaces (FunctionSpace 1 (VectorElement P1 1)) = 1 \<and>
   prod_list [3::nat] = 3 \<and>
   make_space P1 [3] 1 = make_space P1 [2] 1"
  by (simp add: make_space_def VectorElement_init_def P1_def geometric_dimension_def
        num_sub_spaces_def FunctionSpace_def)

text \<open>
  C5. For a declared shape of three or more dimensions \<^verbatim>\<open>make_space\<close> raises the
  \<^verbatim>\<open>ValueError\<close> of line 200 (the specification's \<open>UnsupportedRankError\<close>), and a
  node of a different-space operator with such a shape has no result.
\<close>

theorem make_space_rank3_rejected:
  assumes "3 \<le> length shape"
  shows "make_space V shape m = Inl ValueError \<and>
         (ds k = Some op' \<longrightarrow> (\<exists>e. Eval L ss ds (Operator k ops shape) h = Inl e))"
proof -
  have ms: "\<And>V m. make_space V shape m = Inl ValueError"
    using assms by (auto simp: make_space_def)
  have "\<exists>e. numpy_reshaped_args L args shape op' h1 = Inl e" for args h1
    by (simp add: numpy_reshaped_args_def ms split: sum.splits option.splits prod.splits)
  then show ?thesis
    by (auto simp: ms split: sum.splits prod.splits)
qed

theorem make_space_rank3_rejected_witness:
  "3 \<le> length [2::nat, 2, 2] \<and>
   make_space P1 [2, 2, 2] 1 = Inl ValueError \<and>
   DIFFERENT_SPACE_RULES example_lib Cross = Some (tensor example_lib np_cross) \<and>
   (\<exists>e. example_Eval (Operator Cross [Function 0, Function 1] [2, 2, 2]) example_store = Inl e)"
proof -
  have h: "3 \<le> length [2::nat, 2, 2]" by simp
  have d: "DIFFERENT_SPACE_RULES example_lib Cross = Some (tensor example_lib np_cross)"
    by (simp add: DIFFERENT_SPACE_RULES_def)
  from make_space_rank3_rejected [OF h]
  have "make_space P1 [2, 2, 2] 1 = Inl ValueError"
    and "\<exists>e. example_Eval (Operator Cross [Function 0, Function 1] [2, 2, 2]) example_store = Inl e"
    unfolding example_Eval_def using d by blast+
  with h d show ?thesis by blast
qed

subsection \<open>Operators outside the tables\<close>

text \<open>
  C2, as the code has it. The operands of a node are evaluated on line 65, before the
  table is read on line 67. A node whose type is in neither table therefore never has a
  result; its failure is the \<^verbatim>\<open>KeyError\<close> of line 67 (the specification's
  \<open>UnsupportedOperatorError\<close>) when every operand evaluates, and the failure of the
  first operand that fails otherwise.
\<close>

theorem unknown_operator_fails:
  assumes "ss k = None" and "ds k = None"
  shows "(\<exists>e. Eval L ss ds (Operator k ops shape) h = Inl e) \<and>
         (\<forall>args h1. map_Eval L ops h = Inr (args, h1) \<longrightarrow>
            Eval L ss ds (Operator k ops shape) h = Inl KeyError) \<and>
         (\<forall>e. map_Eval L ops h = Inl e \<longrightarrow> Eval L ss ds (Operator k ops shape) h = Inl e)"
  using assms by (auto split: sum.splits)

theorem unknown_operator_fails_witness:
  "SAME_SPACE_RULES example_lib Indexed = None \<and>
   DIFFERENT_SPACE_RULES example_lib Indexed = None \<and>
   map_Eval example_lib [Function 3] example_store = Inr ([Fun 3], example_store) \<and>
   example_Eval (Operator Indexed [Function 3] []) example_store = Inl KeyError"
proof -
  have s: "SAME_SPACE_RULES example_lib Indexed = None"
    by (simp add: SAME_SPACE_RULES_def)
  have d: "DIFFERENT_SPACE_RULES example_lib Indexed = None"
    by (simp add: DIFFERENT_SPACE_RULES_def)
  have m: "map_Eval example_lib [Function 3] example_store = Inr ([Fun 3], example_store)"
    by simp
  from unknown_operator_fails
         [where ss = "SAME_SPACE_RULES example_lib" and ds = "DIFFERENT_SPACE_RULES example_lib"
            and k = Indexed and L = example_lib and ops = "[Function 3]" and shape = "[]"
            and h = example_store, OF s d] m
  have "example_Eval (Operator Indexed [Function 3] []) example_store = Inl KeyError"
    unfolding example_Eval_def by blast
  with s d m show ?thesis by blast
qed

text \<open>
  The claim as stated fails where an operand fails first: the operand below is a sum of
  two scalar fields on different meshes, and the node fails with its
  \<^verbatim>\<open>AssertionError\<close>, not with a \<^verbatim>\<open>KeyError\<close>.
\<close>

theorem unknown_operator_operand_error_first:
  "SAME_SPACE_RULES example_lib (OtherKind ''Conj'') = None \<and>
   DIFFERENT_SPACE_RULES example_lib (OtherKind ''Conj'') = None \<and>
   example_Eval (Operator (OtherKind ''Conj'') [Operator Sum [Function 3, Function 6] []] [])
     example_store = Inl AssertionError"
  by code_simp


subsection \<open>Numbers as operands of a different-space operator\<close>

lemma space_of_number: "space_of h [Num x] = Inl RuntimeError"
  by (simp add: space_of_def)

lemma map_err_space_of_number:
  "Num x \<in> set args \<Longrightarrow> \<exists>e. map_err (\<lambda>arg. space_of h [arg]) args = Inl e"
  by (induction args) (auto simp: space_of_number split: sum.splits)

text \<open>
  C10. When an operand of a different-space node evaluates to a number,
  \<^verbatim>\<open>numpy_reshaped\<close> fails: line 116 asks \<^verbatim>\<open>space_of\<close> for the space of each operand
  by itself, a number brings no Function, and \<^verbatim>\<open>FunctionSpace(None, None)\<close> is
  refused; the later \<^verbatim>\<open>arg.function_space()\<close> of line 124 would fail on a number as
  well. No scalar is broadcast. (Same-space operators take numbers: \<^verbatim>\<open>coefs_of\<close>
  passes them to the kernel, see \<open>Eval_scalar_times_function\<close>.)
\<close>

theorem number_operand_rejected:
  assumes "ds k = Some op'"
    and "map_Eval L ops h = Inr (args, h1)"
    and "Num x \<in> set args"
  shows "(\<exists>e. Eval L ss ds (Operator k ops shape) h = Inl e) \<and>
         space_of h1 [Num x] = Inl RuntimeError \<and>
         function_space_of h1 (Num x) = Inl AttributeError"
proof -
  from map_err_space_of_number [OF assms(3)]
  obtain e where "map_err (\<lambda>arg. space_of h1 [arg]) args = Inl e" by blast
  then have "numpy_reshaped_args L args shape op' h1 = Inl e"
    by (simp add: numpy_reshaped_args_def)
  with assms(1,2) show ?thesis by (simp add: space_of_number)
qed

theorem number_operand_rejected_witness:
  "DIFFERENT_SPACE_RULES example_lib Inner = Some (tensor example_lib np_inner) \<and>
   map_Eval example_lib [Function 0, ScalarValue 2] example_store =
     Inr ([Fun 0, Num 2], example_store) \<and>
   Num 2 \<in> set [Fun 0, Num (2::int)] \<and>
   (\<exists>e. example_Eval (Operator Inner [Function 0, ScalarValue 2] []) example_store = Inl e) \<and>
   space_of example_store [Num (2::int)] = Inl RuntimeError"
proof -
  have d: "DIFFERENT_SPACE_RULES example_lib Inner = Some (tensor example_lib np_inner)"
    by (simp add: DIFFERENT_SPACE_RULES_def)
  have m: "map_Eval example_lib [Function 0, ScalarValue 2] example_store =
             Inr ([Fun 0, Num 2], example_store)"
    by simp
  have n: "Num 2 \<in> set [Fun 0, Num (2::int)]" by simp
  from number_operand_rejected
         [where ds = "DIFFERENT_SPACE_RULES example_lib" and k = Inner
            and ss = "SAME_SPACE_RULES example_lib" and shape = "[]", OF d m n]
  have "\<exists>e. example_Eval (Operator Inner [Function 0, ScalarValue 2] []) example_store = Inl e"
    and "space_of example_store [Num (2::int)] = Inl RuntimeError"
    unfolding example_Eval_def by blast+
  with d m n show ?thesis by blast
qed

subsection \<open>Same-space operators over different spaces\<close>

lemma space_of_loop_keeps_reference:
  "space_of_loop h (Some ref) foos = Inr r \<Longrightarrow> r = Some ref"
proof (induction foos)
  case Nil
  then show ?case by simp
next
  case (Cons v foos)
  then show ?case
    by (cases v) (auto split: option.splits if_splits prod.splits)
qed

lemma space_of_adopts_first:
  assumes "deref h a = Some fa"
  shows "space_of h (Fun a # foos) =
         (case space_of_loop h (Some (ufl_element (function_space fa),
                                      mesh (function_space fa))) foos of
            Inl e \<Rightarrow> Inl e
          | Inr r \<Rightarrow> Inr (function_space fa))"
  using assms
  by (auto simp: space_of_def FunctionSpace_def split: sum.splits option.splits
           dest: space_of_loop_keeps_reference)

lemma space_of_two_mismatch:
  assumes "deref h a = Some fa" and "deref h b = Some fb"
    and "ufl_element (function_space fa) \<noteq> ufl_element (function_space fb) \<or>
         mesh (function_space fa) \<noteq> mesh (function_space fb)"
  shows "space_of h [Fun a, Fun b] = Inl AssertionError"
  using assms by (auto simp: space_of_def)

text \<open>
  C3, as the code has it. \<^verbatim>\<open>space_of\<close> takes the element and mesh of the first
  Function as the reference and fails with \<^verbatim>\<open>AssertionError\<close> (the specification's
  \<open>InconsistentSpaceError\<close>) at a later Function whose element or mesh identity differs.
  \<^verbatim>\<open>Eval\<close> calls it on line 72, after the kernel has run on line 70: a same-space node
  over two Functions of different spaces never has a result; its failure is the
  \<^verbatim>\<open>AssertionError\<close> when the kernel accepts the two coefficient arrays, and the
  kernel's own error when it does not.
\<close>

theorem same_space_mismatch_fails:
  assumes "ds k = None" and "ss k = Some op'"
    and "map_Eval L ops h = Inr ([Fun a, Fun b], h1)"
    and "deref h1 a = Some fa" and "deref h1 b = Some fb"
    and "ufl_element (function_space fa) \<noteq> ufl_element (function_space fb) \<or>
         mesh (function_space fa) \<noteq> mesh (function_space fb)"
  shows "space_of h1 [Fun a, Fun b] = Inl AssertionError \<and>
         (\<exists>e. Eval L ss ds (Operator k ops shape) h = Inl e) \<and>
         (\<forall>c. op' [NDArray [length (vector fa)] (vector fa),
                    NDArray [length (vector fb)] (vector fb)] = Inr c \<longrightarrow>
            Eval L ss ds (Operator k ops shape) h = Inl AssertionError) \<and>
         (\<forall>e. op' [NDArray [length (vector fa)] (vector fa),
                    NDArray [length (vector fb)] (vector fb)] = Inl e \<longrightarrow>
            Eval L ss ds (Operator k ops shape) h = Inl e)"
proof -
  have s: "space_of h1 [Fun a, Fun b] = Inl AssertionError"
    using assms(4-6) by (rule space_of_two_mismatch)
  have c: "map_err (coefs_of h1) [Fun a, Fun b] =
           Inr [NDArray [length (vector fa)] (vector fa),
                NDArray [length (vector fb)] (vector fb)]"
    using assms(4,5) by simp
  show ?thesis using assms(1-3) s c by (auto split: sum.splits)
qed

theorem same_space_mismatch_fails_witness:
  "DIFFERENT_SPACE_RULES example_lib Sum = None \<and>
   SAME_SPACE_RULES example_lib Sum = Some (apply_ufunc2 example_lib np_add) \<and>
   map_Eval example_lib [Function 3, Function 6] example_store =
     Inr ([Fun 3, Fun 6], example_store) \<and>
   deref example_store 3 = Some \<lparr>function_space = FunctionSpace 1 P1, vector = [1, 2]\<rparr> \<and>
   deref example_store 6 = Some \<lparr>function_space = FunctionSpace 2 P1, vector = [5, 6]\<rparr> \<and>
   mesh (FunctionSpace 1 P1) \<noteq> mesh (FunctionSpace 2 P1) \<and>
   apply_ufunc2 example_lib np_add [NDArray [2] [1, 2], NDArray [2] [5, 6]] =
     Inr (NDArray [2] [6, 8]) \<and>
   space_of example_store [Fun 3, Fun 6] = Inl AssertionError \<and>
   example_Eval (Operator Sum [Function 3, Function 6] []) example_store = Inl AssertionError \<and>
   map_Eval example_lib [Function 3, Function 5] example_store =
     Inr ([Fun 3, Fun 5], example_store) \<and>
   deref example_store 5 = Some \<lparr>function_space = FunctionSpace 3 P1, vector = [7, 8, 9]\<rparr> \<and>
   mesh (FunctionSpace 1 P1) \<noteq> mesh (FunctionSpace 3 P1) \<and>
   apply_ufunc2 example_lib np_add [NDArray [2] [1, 2], NDArray [3] [7, 8, 9]] =
     Inl ValueError \<and>
   space_of example_store [Fun 3, Fun 5] = Inl AssertionError \<and>
   example_Eval (Operator Sum [Function 3, Function 5] []) example_store = Inl ValueError"
proof -
  let ?fa = "\<lparr>function_space = FunctionSpace 1 P1, vector = [1, 2::int]\<rparr>"
  let ?fb = "\<lparr>function_space = FunctionSpace 2 P1, vector = [5, 6::int]\<rparr>"
  let ?fc = "\<lparr>function_space = FunctionSpace 3 P1, vector = [7, 8, 9::int]\<rparr>"
  have d: "DIFFERENT_SPACE_RULES example_lib Sum = None"
    by (simp add: DIFFERENT_SPACE_RULES_def)
  have s: "SAME_SPACE_RULES example_lib Sum = Some (apply_ufunc2 example_lib np_add)"
    by (simp add: SAME_SPACE_RULES_def)
  have m: "map_Eval example_lib [Function 3, Function 6] example_store =
             Inr ([Fun 3, Fun 6], example_store)"
    by simp
  have m': "map_Eval example_lib [Function 3, Function 5] example_store =
             Inr ([Fun 3, Fun 5], example_store)"
    by simp
  have a: "deref example_store 3 = Some ?fa" and b: "deref example_store 6 = Some ?fb"
    and c: "deref example_store 5 = Some ?fc"
    by (simp_all add: deref_def example_store_def)
  have ne: "ufl_element (function_space ?fa) \<noteq> ufl_element (function_space ?fb) \<or>
            mesh (function_space ?fa) \<noteq> mesh (function_space ?fb)"
    by (simp add: FunctionSpace_def)
  have ne': "ufl_element (function_space ?fa) \<noteq> ufl_element (function_space ?fc) \<or>
            mesh (function_space ?fa) \<noteq> mesh (function_space ?fc)"
    by (simp add: FunctionSpace_def)
  have k: "apply_ufunc2 example_lib np_add [NDArray [2] [1, 2], NDArray [2] [5, 6]] =
             Inr (NDArray [2] [6, 8])"
    by (simp add: example_lib_def)
  have k': "apply_ufunc2 example_lib np_add [NDArray [2] [1, 2], NDArray [3] [7, 8, 9]] =
             Inl ValueError"
    by simp
  from same_space_mismatch_fails
         [where ds = "DIFFERENT_SPACE_RULES example_lib" and k = Sum
            and ss = "SAME_SPACE_RULES example_lib" and shape = "[]", OF d s m a b ne] k
  have r1: "space_of example_store [Fun 3, Fun 6] = Inl AssertionError"
    and r2: "example_Eval (Operator Sum [Function 3, Function 6] []) example_store =
           Inl AssertionError"
    unfolding example_Eval_def by simp_all
  from same_space_mismatch_fails
         [where ds = "DIFFERENT_SPACE_RULES example_lib" and k = Sum
            and ss = "SAME_SPACE_RULES example_lib" and shape = "[]", OF d s m' a c ne'] k'
  have r3: "space_of example_store [Fun 3, Fun 5] = Inl AssertionError"
    and r4: "example_Eval (Operator Sum [Function 3, Function 5] []) example_store =
           Inl ValueError"
    unfolding example_Eval_def by simp_all
  have n1: "mesh (FunctionSpace 1 P1) \<noteq> mesh (FunctionSpace 2 P1)"
    and n2: "mesh (FunctionSpace 1 P1) \<noteq> mesh (FunctionSpace 3 P1)"
    by (simp_all add: FunctionSpace_def)
  show ?thesis using d s m a b k r1 r2 m' c k' r3 r4 n1 n2 by blast
qed

text \<open>
  The claim as stated fails where the kernel fails first: Function 3 has two coefficients
  on mesh 1 and Function 5 three on mesh 3, \<^verbatim>\<open>np.add\<close> cannot broadcast them, and the
  node fails with numpy's \<^verbatim>\<open>ValueError\<close> before \<^verbatim>\<open>space_of\<close> is reached.
\<close>

theorem same_space_mismatch_kernel_error_first:
  "deref example_store 3 = Some \<lparr>function_space = FunctionSpace 1 P1, vector = [1, 2]\<rparr> \<and>
   deref example_store 5 = Some \<lparr>function_space = FunctionSpace 3 P1, vector = [7, 8, 9]\<rparr> \<and>
   mesh (FunctionSpace 1 P1) \<noteq> mesh (FunctionSpace 3 P1) \<and>
   example_Eval (Operator Sum [Function 3, Function 5] []) example_store = Inl ValueError"
  by code_simp


subsection \<open>Linear combinations\<close>


lemma FunctionSpace_of_space [simp]: "FunctionSpace (mesh V) (ufl_element V) = (V::space)"
  by (simp add: FunctionSpace_def)










subsection \<open>The store is only extended\<close>

lemma make_function_store:
  "make_function L V c h = Inr (v, h') \<Longrightarrow> \<exists>f. h' = h @ [f] \<and> v = Fun (length h)"
  by (auto simp: make_function_def new_Function_def set_local_def deref_def
           split: sum.splits option.splits npval.splits if_splits)

lemma numpy_reshaped_args_store:
  "numpy_reshaped_args L args shape op' h = Inr (v, h') \<Longrightarrow> \<exists>new. h' = h @ new"
  by (auto simp: numpy_reshaped_args_def new_Function_def dest!: make_function_store
           split: sum.splits option.splits prod.splits)

lemma Eval_store_mutual:
  "\<forall>v h'. Eval L ss ds e h = Inr (v, h') \<longrightarrow> (\<exists>new. h' = h @ new)"
  "\<forall>v h'. numpy_reshaped L ops shape op' h = Inr (v, h') \<longrightarrow> (\<exists>new. h' = h @ new)"
  "\<forall>vs h'. map_Eval L es h = Inr (vs, h') \<longrightarrow> (\<exists>new. h' = h @ new)"
proof (induction L ss ds e h and L ops shape op' h and L es h
       rule: Eval_numpy_reshaped_map_Eval.induct)
  case (4 L ss_rules ds_rules expr_type ufl_operands ufl_shape h)
  show ?case
  proof (cases "ds_rules expr_type")
    case None
    show ?thesis using 4(1)[OF None] None
      by (auto split: sum.splits option.splits dest!: make_function_store)
  next
    case (Some op')
    then show ?thesis using 4(2)[OF Some] by simp
  qed
next
  case (5 L ufl_operands ufl_shape op' h)
  then show ?case
    by (auto split: sum.splits dest!: numpy_reshaped_args_store)
next
  case (7 L e es h)
  show ?case
  proof (intro allI impI)
    fix vs h' assume a: "map_Eval L (e # es) h = Inr (vs, h')"
    then obtain v h1 vs'
      where e: "Eval L (SAME_SPACE_RULES L) (DIFFERENT_SPACE_RULES L) e h = Inr (v, h1)"
        and m: "map_Eval L es h1 = Inr (vs', h')"
      by (auto split: sum.splits)
    from 7(1) e obtain n1 where "h1 = h @ n1" by blast
    moreover from 7(2)[OF e refl] m obtain n2 where "h' = h1 @ n2" by blast
    ultimately show "\<exists>new. h' = h @ new" by simp
  qed
qed simp_all

text \<open>
  C8. When \<^verbatim>\<open>Eval\<close> returns, the store is the store it started from followed by the
  Functions it created: every Function that existed before, the operands among them, has
  the space and the coefficient vector it had. \<^verbatim>\<open>get_local\<close> hands out copies,
  \<^verbatim>\<open>set_local\<close> is only called on the Function that \<^verbatim>\<open>make_function\<close> has just
  created.
\<close>

theorem Eval_preserves_store:
  assumes "Eval L ss ds e h = Inr (v, h')"
  shows "(\<exists>new. h' = h @ new) \<and>
         (\<forall>r f. deref h r = Some f \<longrightarrow> deref h' r = Some f)"
proof -
  from Eval_store_mutual(1) assms obtain new where n: "h' = h @ new" by blast
  have "deref h' r = Some f" if "deref h r = Some f" for r f
    using that n by (auto simp: deref_def nth_append split: if_splits)
  with n show ?thesis by blast
qed

theorem Eval_preserves_store_witness:
  "example_Eval (Operator Sum [Function 3, Operator Inner [Function 0, Function 1] []] [])
     example_store =
   Inr (Fun 9,
        example_store @
          [\<lparr>function_space = FunctionSpace 1 P1, vector = [0, 0]\<rparr>,
           \<lparr>function_space = FunctionSpace 1 P1, vector = [61, 113]\<rparr>,
           \<lparr>function_space = FunctionSpace 1 P1, vector = [62, 115]\<rparr>]) \<and>
   deref example_store 3 = Some \<lparr>function_space = FunctionSpace 1 P1, vector = [1, 2]\<rparr> \<and>
   deref (example_store @
          [\<lparr>function_space = FunctionSpace 1 P1, vector = [0, 0]\<rparr>,
           \<lparr>function_space = FunctionSpace 1 P1, vector = [61, 113]\<rparr>,
           \<lparr>function_space = FunctionSpace 1 P1, vector = [62, 115]\<rparr>]) 3 =
     Some \<lparr>function_space = FunctionSpace 1 P1, vector = [1, 2]\<rparr>"
proof -
  have e: "example_Eval (Operator Sum [Function 3, Operator Inner [Function 0, Function 1] []] [])
     example_store =
   Inr (Fun 9,
        example_store @
          [\<lparr>function_space = FunctionSpace 1 P1, vector = [0, 0]\<rparr>,
           \<lparr>function_space = FunctionSpace 1 P1, vector = [61, 113]\<rparr>,
           \<lparr>function_space = FunctionSpace 1 P1, vector = [62, 115]\<rparr>])"
    by code_simp
  have d: "deref example_store 3 =
           Some \<lparr>function_space = FunctionSpace 1 P1, vector = [1, 2]\<rparr>"
    by (simp add: deref_def example_store_def)
  from Eval_preserves_store [OF e [unfolded example_Eval_def]] d
  have "deref (example_store @
          [\<lparr>function_space = FunctionSpace 1 P1, vector = [0, 0]\<rparr>,
           \<lparr>function_space = FunctionSpace 1 P1, vector = [61, 113]\<rparr>,
           \<lparr>function_space = FunctionSpace 1 P1, vector = [62, 115]\<rparr>]) 3 =
     Some \<lparr>function_space = FunctionSpace 1 P1, vector = [1, 2]\<rparr>"
    by blast
  with e d show ?thesis by blast
qed


subsection \<open>Different-space operators over different meshes\<close>

lemma the_sub_element_mesh_blind:
  "the_sub_element (FunctionSpace m (ufl_element V)) = the_sub_element V"
  by (simp add: the_sub_element_def num_sub_spaces_def FunctionSpace_def)

lemma common_sub_element_loop_mesh_blind:
  "common_sub_element_loop W (map (\<lambda>V. FunctionSpace (m V) (ufl_element V)) spaces) =
   common_sub_element_loop W spaces"
  by (induction spaces arbitrary: W)
     (auto simp: the_sub_element_mesh_blind split: sum.splits)

lemma common_sub_element_mesh_blind:
  "common_sub_element (map (\<lambda>V. FunctionSpace (m V) (ufl_element V)) spaces) =
   common_sub_element spaces"
  by (simp add: common_sub_element_def common_sub_element_loop_mesh_blind)

lemma collect_args_last:
  "collect_args L h fr args = Inr (cur, s, gens) \<Longrightarrow> args \<noteq> [] \<Longrightarrow>
   \<exists>c V. cur = Some (c, V) \<and> function_space_of h (last args) = Inr V \<and>
         coefs_of h (last args) = Inr c"
proof (induction args arbitrary: fr)
  case Nil
  then show ?case by simp
next
  case (Cons arg args)
  obtain cur0 s0 g0 where fr: "fr = (cur0, s0, g0)" by (cases fr)
  from Cons.prems(1) fr obtain c V idx
    where c: "coefs_of h arg = Inr c" and V: "function_space_of h arg = Inr V"
      and rest: "collect_args L h
                   (Some (c, V),
                    if value_shape (ufl_element V) \<noteq> [] then Some (value_shape (ufl_element V))
                    else s0,
                    g0 @ [if value_shape (ufl_element V) \<noteq> [] then Reshaped idx
                          else Direct idx]) args = Inr (cur, s, gens)"
    by (auto simp: Let_def split: sum.splits if_splits)
  show ?case
  proof (cases "args = []")
    case True
    with rest c V show ?thesis by simp
  next
    case False
    with Cons.IH [OF rest] show ?thesis by simp
  qed
qed

lemma make_function_Inr:
  "make_function L V c h = Inr (v, h') \<Longrightarrow>
   \<exists>sh xs. c = NDArray sh xs \<and> length xs = dim L V \<and> v = Fun (length h) \<and>
           h' = h @ [\<lparr>function_space = V, vector = xs\<rparr>]"
  by (auto simp: make_function_def new_Function_def set_local_def deref_def
           split: npval.splits if_splits)

lemma make_space_mesh: "make_space sub shape m = Inr V \<Longrightarrow> mesh V = m"
  by (auto simp: make_space_def FunctionSpace_def split: if_splits)

text \<open>
  Whenever \<^verbatim>\<open>numpy_reshaped\<close> returns, its result is a Function on the mesh of the last
  operand; the meshes of the other operands are read nowhere
  (\<open>common_sub_element_mesh_blind\<close>).
\<close>

lemma numpy_reshaped_args_mesh:
  assumes "numpy_reshaped_args L args shape op' h = Inr (v, h')"
  shows "\<exists>r f V. v = Fun r \<and> deref h' r = Some f \<and> args \<noteq> [] \<and>
           function_space_of h (last args) = Inr V \<and>
           mesh (function_space f) = mesh V"
proof -
  from assms
  have "\<exists>arg_coefs V s gens sub V_res coefs.
          collect_args L h (None, None, []) args = Inr (Some (arg_coefs, V), s, gens) \<and>
          make_space sub shape (mesh V) = Inr V_res \<and>
          make_function L V_res (NDArray [length coefs] coefs)
            (h @ [\<lparr>function_space = V_res, vector = replicate (dim L V_res) 0\<rparr>]) =
            Inr (v, h')"
    by (auto simp: numpy_reshaped_args_def new_Function_def
             split: sum.splits option.splits prod.splits)
  then obtain arg_coefs V s gens sub V_res coefs
    where col: "collect_args L h (None, None, []) args = Inr (Some (arg_coefs, V), s, gens)"
      and ms: "make_space sub shape (mesh V) = Inr V_res"
      and mf: "make_function L V_res (NDArray [length coefs] coefs)
                 (h @ [\<lparr>function_space = V_res, vector = replicate (dim L V_res) 0\<rparr>]) =
               Inr (v, h')"
    by blast
  have ne: "args \<noteq> []" using col by (cases args) auto
  from collect_args_last [OF col ne]
  have lst: "function_space_of h (last args) = Inr V" by simp
  from make_function_Inr [OF mf] have v: "v = Fun (Suc (length h))"
    and h': "h' = h @ [\<lparr>function_space = V_res, vector = replicate (dim L V_res) 0\<rparr>,
                      \<lparr>function_space = V_res, vector = coefs\<rparr>]"
    by simp_all
  from h' have "deref h' (Suc (length h)) = Some \<lparr>function_space = V_res, vector = coefs\<rparr>"
    by (simp add: deref_def nth_append)
  with v ne lst make_space_mesh [OF ms] show ?thesis by auto
qed

text \<open>
  C4. \<^verbatim>\<open>common_sub_element\<close> compares elements only, and \<^verbatim>\<open>space_of\<close> is called on
  one operand at a time (line 116), where its assertion on the mesh has nothing to compare.
  Functions 0 and 2 are vector fields over the same scalar element on meshes 1 and 2: the
  inner product of the two is evaluated without any failure and returned as a Function on
  mesh 2, the mesh of the last operand.
\<close>

theorem different_meshes_not_rejected:
  "deref example_store 0 =
     Some \<lparr>function_space = FunctionSpace 1 (VectorElement P1 2), vector = [1, 2, 3, 4]\<rparr> \<and>
   deref example_store 2 =
     Some \<lparr>function_space = FunctionSpace 2 (VectorElement P1 2), vector = [10, 20, 30, 40]\<rparr> \<and>
   common_sub_element
     [FunctionSpace 1 (VectorElement P1 2), FunctionSpace 2 (VectorElement P1 2)] =
     Inr (Some P1) \<and>
   example_Eval (Operator Inner [Function 0, Function 2] []) example_store =
     Inr (Fun 8,
          example_store @
            [\<lparr>function_space = FunctionSpace 2 P1, vector = [0, 0]\<rparr>,
             \<lparr>function_space = FunctionSpace 2 P1, vector = [500, 2500]\<rparr>])"
  by code_simp

subsection \<open>The values fed to a different-space kernel\<close>

text \<open>
  C9. The logical value of an operand at a dof is to be the operand's own coefficients at
  the dof's component indices, in the operand's shape. Functions 0 and 1 are two vector
  fields of one space with coefficients \<open>[1, 2, 3, 4]\<close> and \<open>[5, 6, 7, 8]\<close>; at the
  first dof the value of Function 0 is \<open>[1, 2]\<close>. When the loop of line 121 has
  finished, \<^verbatim>\<open>arg_coefs\<close> holds the coefficients of Function 1, and both generators
  read it: the kernel of \<^verbatim>\<open>inner(u, v)\<close> is fed \<open>[5, 6]\<close> for either operand, and the
  Function returned holds \<open>v . v\<close>, 61 and 113, where \<open>u . v\<close> is 17 and 53.
\<close>

theorem operands_read_last_coefficients:
  "collect_args example_lib example_store (None, None, []) [Fun 0, Fun 1] =
     Inr (Some (NDArray [4] [5, 6, 7, 8], FunctionSpace 1 (VectorElement P1 2)),
          Some [2],
          [Reshaped [Dofs [0, 1], Dofs [2, 3]], Reshaped [Dofs [0, 1], Dofs [2, 3]]]) \<and>
   next_args (NDArray [4] [5, 6, 7, 8 :: int]) (Some [2])
     [Reshaped [Dofs [0, 1], Dofs [2, 3]], Reshaped [Dofs [0, 1], Dofs [2, 3]]] =
     Some (Inr ([NDArray [2] [5, 6], NDArray [2] [5, 6]],
                [Reshaped [Dofs [2, 3]], Reshaped [Dofs [2, 3]]])) \<and>
   coefs_of example_store (Fun 0) = Inr (NDArray [4] [1, 2, 3, 4]) \<and>
   getitem (NDArray [4] [1, 2, 3, 4 :: int]) (Dofs [0, 1]) = Inr (NDArray [2] [1, 2]) \<and>
   reshape [2] (NDArray [2] [1, 2 :: int]) = Inr (NDArray [2] [1, 2]) \<and>
   example_Eval (Operator Inner [Function 0, Function 1] []) example_store =
     Inr (Fun 8,
          example_store @
            [\<lparr>function_space = FunctionSpace 1 P1, vector = [0, 0]\<rparr>,
             \<lparr>function_space = FunctionSpace 1 P1, vector = [61, 113]\<rparr>])"
  by code_simp


lemma izip_nth:
  assumes "xss \<noteq> []" and "\<forall>xs \<in> set xss. k < length xs"
  shows "k < length (izip xss) \<and> izip xss ! k = map (\<lambda>xs. xs ! k) xss"
proof -
  have "min_list (map length xss) = Min (set (map length xss))"
    using assms(1) by (simp add: min_list_Min)
  moreover have "k < Min (set (map length xss))"
    using assms by simp
  ultimately have "k < min_list (map length xss)" by simp
  then show ?thesis
    using assms(1) by (cases xss) (simp_all add: izip_def)
qed

lemma kth_args_Reshaped:
  assumes "k < length idx"
    and "\<forall>j \<le> k. \<exists>x. getitem c (idx ! j) = Inr x \<and> (\<exists>y. reshape shape x = Inr y)"
  shows "\<exists>x y rest. getitem c (idx ! k) = Inr x \<and> reshape shape x = Inr y \<and>
           kth_args c (Some shape) [Reshaped idx] k = Some (Inr ([y], rest))"
  using assms
proof (induction k arbitrary: idx)
  case 0
  then obtain i rest where idx: "idx = i # rest" by (cases idx) auto
  with 0 show ?case by (auto simp: next_args_def)
next
  case (Suc k)
  then obtain i rest where idx: "idx = i # rest" by (cases idx) auto
  from Suc.prems(2) idx obtain x y where h: "getitem c i = Inr x" "reshape shape x = Inr y"
    by (metis le0 nth_Cons_0)
  have "k < length rest" using Suc.prems(1) idx by simp
  moreover have "\<forall>j \<le> k. \<exists>x. getitem c (rest ! j) = Inr x \<and> (\<exists>y. reshape shape x = Inr y)"
    using Suc.prems(2) idx by (metis Suc_le_mono nth_Cons_Suc)
  ultimately show ?case
    using Suc.IH [of rest] idx h by (simp add: next_args_def)
qed

lemma kth_args_Direct:
  assumes "k < length idx"
    and "\<forall>j \<le> k. \<exists>x. getitem c (idx ! j) = Inr x"
  shows "\<exists>x rest. getitem c (idx ! k) = Inr x \<and>
           kth_args c s [Direct idx] k = Some (Inr ([x], rest))"
  using assms
proof (induction k arbitrary: idx)
  case 0
  then obtain i rest where idx: "idx = i # rest" by (cases idx) auto
  with 0 show ?case by (auto simp: next_args_def)
next
  case (Suc k)
  then obtain i rest where idx: "idx = i # rest" by (cases idx) auto
  from Suc.prems(2) idx obtain x where h: "getitem c i = Inr x"
    by (metis le0 nth_Cons_0)
  have "k < length rest" using Suc.prems(1) idx by simp
  moreover have "\<forall>j \<le> k. \<exists>x. getitem c (rest ! j) = Inr x"
    using Suc.prems(2) idx by (metis Suc_le_mono nth_Cons_Suc)
  ultimately show ?case
    using Suc.IH [of rest] idx h by (simp add: next_args_def)
qed

text \<open>
  For a node of one operand the generator reads the coefficients of that operand, and the
  values it yields are the ones described: at dof \<open>k\<close> of a vector or tensor field,
  the coefficients at the \<open>k\<close>-th entry of each component's dof list, in the order of
  the components, in the shape of the field; for a scalar field the coefficient at the
  \<open>k\<close>-th entry of the dof list of the space.
\<close>

theorem single_operand_logical_values:
  assumes f: "deref h r = Some f"
    and V: "V = function_space f" and n: "n = num_sub_spaces V"
    and shape: "shape = value_shape (ufl_element V)"
    and tensor_case:
      "n \<noteq> 0 \<longrightarrow> shape \<noteq> [] \<and> prod_list shape = n \<and>
         (\<forall>comp < n. k < length (sub_dofs L V comp) \<and>
            (\<forall>j \<le> k. sub_dofs L V comp ! j < length (vector f)))"
    and scalar_case:
      "n = 0 \<longrightarrow> shape = [] \<and> k < length (dofs L V) \<and>
         (\<forall>j \<le> k. dofs L V ! j < length (vector f))"
  shows "\<exists>s gens rest.
           collect_args L h (None, None, []) [Fun r] =
             Inr (Some (NDArray [length (vector f)] (vector f), V), s, gens) \<and>
           kth_args (NDArray [length (vector f)] (vector f)) s gens k =
             Some (Inr ([if n \<noteq> 0
                         then NDArray shape
                                (map (\<lambda>comp. vector f ! (sub_dofs L V comp ! k)) [0..<n])
                         else Scalar (vector f ! (dofs L V ! k))], rest))"
proof (cases "n = 0")
  case True
  let ?c = "NDArray [length (vector f)] (vector f)"
  let ?idx = "map Dof (dofs L V)"
  from True scalar_case have sh: "shape = []" and k: "k < length (dofs L V)"
    and rng: "\<forall>j \<le> k. dofs L V ! j < length (vector f)" by simp_all
  have col: "collect_args L h (None, None, []) [Fun r] =
             Inr (Some (?c, V), None, [Direct ?idx])"
    using f V n shape True sh by (simp add: numpy_op_indices_def)
  have "\<forall>j \<le> k. \<exists>x. getitem ?c (?idx ! j) = Inr x"
    using rng k by simp
  from kth_args_Direct [OF _ this, of None] k
  obtain x rest where "getitem ?c (?idx ! k) = Inr x"
    and "kth_args ?c None [Direct ?idx] k = Some (Inr ([x], rest))" by auto
  moreover have "getitem ?c (?idx ! k) = Inr (Scalar (vector f ! (dofs L V ! k)))"
    using rng k by simp
  ultimately show ?thesis using col True by auto
next
  case False
  let ?c = "NDArray [length (vector f)] (vector f)"
  let ?xss = "map (\<lambda>comp. sub_dofs L V comp) [0..<n]"
  let ?idx = "map Dofs (izip ?xss)"
  from False tensor_case have sh: "shape \<noteq> []" and pr: "prod_list shape = n"
    and len: "\<forall>comp < n. k < length (sub_dofs L V comp)"
    and rng: "\<forall>comp < n. \<forall>j \<le> k. sub_dofs L V comp ! j < length (vector f)"
    by simp_all
  have col: "collect_args L h (None, None, []) [Fun r] =
             Inr (Some (?c, V), Some shape, [Reshaped ?idx])"
    using f V n shape False sh by (simp add: numpy_op_indices_def Let_def)
  have ne: "?xss \<noteq> []" using False by simp
  have nth: "j < length (izip ?xss) \<and> izip ?xss ! j = map (\<lambda>xs. xs ! j) ?xss"
    if "j \<le> k" for j
  proof -
    have "\<forall>xs \<in> set ?xss. j < length xs"
      using len that by (auto intro: le_less_trans)
    from izip_nth [OF ne this] show ?thesis .
  qed
  have val: "getitem ?c (?idx ! j) =
               Inr (NDArray [n] (map (\<lambda>comp. vector f ! (sub_dofs L V comp ! j)) [0..<n]))"
    if "j \<le> k" for j
    using nth [OF that] rng that by (simp add: comp_def)
  have rs: "reshape shape
              (NDArray [n] (map (\<lambda>comp. vector f ! (sub_dofs L V comp ! j)) [0..<n])) =
            Inr (NDArray shape (map (\<lambda>comp. vector f ! (sub_dofs L V comp ! j)) [0..<n]))"
    for j
    using pr by simp
  have ok: "\<forall>j \<le> k. \<exists>x. getitem ?c (?idx ! j) = Inr x \<and> (\<exists>y. reshape shape x = Inr y)"
    using val rs by simp
  have "k < length ?idx" using nth [of k] by simp
  from kth_args_Reshaped [OF this ok]
  obtain x y rest where "getitem ?c (?idx ! k) = Inr x" and "reshape shape x = Inr y"
    and "kth_args ?c (Some shape) [Reshaped ?idx] k = Some (Inr ([y], rest))" by blast
  with val [of k] rs [of k] col False show ?thesis by auto
qed

theorem single_operand_logical_values_witness:
  "deref example_store 0 =
     Some \<lparr>function_space = FunctionSpace 1 (VectorElement P1 2), vector = [1, 2, 3, 4]\<rparr> \<and>
   num_sub_spaces (FunctionSpace 1 (VectorElement P1 2)) = 2 \<and>
   value_shape (VectorElement P1 2) = [2] \<and>
   sub_dofs example_lib (FunctionSpace 1 (VectorElement P1 2)) 0 = [0, 2] \<and>
   sub_dofs example_lib (FunctionSpace 1 (VectorElement P1 2)) 1 = [1, 3] \<and>
   (\<exists>s gens rest.
      collect_args example_lib example_store (None, None, []) [Fun 0] =
        Inr (Some (NDArray [4] [1, 2, 3, 4], FunctionSpace 1 (VectorElement P1 2)), s, gens) \<and>
      kth_args (NDArray [4] [1, 2, 3, 4 :: int]) s gens 1 =
        Some (Inr ([NDArray [2] [3, 4]], rest)))"
proof -
  let ?V = "FunctionSpace 1 (VectorElement P1 2)"
  let ?f = "\<lparr>function_space = ?V, vector = [1, 2, 3, 4::int]\<rparr>"
  have f: "deref example_store 0 = Some ?f"
    by (simp add: deref_def example_store_def)
  have n: "num_sub_spaces ?V = 2"
    by (simp add: num_sub_spaces_def FunctionSpace_def)
  have sh: "value_shape (VectorElement P1 2) = [2]"
    by (simp add: P1_def)
  have s0: "sub_dofs example_lib ?V 0 = [0, 2]" and s1: "sub_dofs example_lib ?V 1 = [1, 3]"
    by code_simp+
  have V: "?V = function_space ?f" by simp
  have n': "(2::nat) = num_sub_spaces ?V" using n by simp
  have sh': "[2] = value_shape (ufl_element ?V)"
    using sh by (simp add: FunctionSpace_def)
  have rng: "\<forall>comp < 2. 1 < length (sub_dofs example_lib ?V comp) \<and>
               (\<forall>j \<le> 1. sub_dofs example_lib ?V comp ! j < length (vector ?f))"
  proof (intro allI impI)
    fix comp :: nat assume "comp < 2"
    then have "comp = 0 \<or> comp = 1" by auto
    then show "1 < length (sub_dofs example_lib ?V comp) \<and>
               (\<forall>j \<le> 1. sub_dofs example_lib ?V comp ! j < length (vector ?f))"
      using s0 s1 by (auto simp: le_Suc_eq)
  qed
  have t: "(2::nat) \<noteq> 0 \<longrightarrow> [2::nat] \<noteq> [] \<and> prod_list [2::nat] = 2 \<and>
             (\<forall>comp < 2. 1 < length (sub_dofs example_lib ?V comp) \<and>
                (\<forall>j \<le> 1. sub_dofs example_lib ?V comp ! j < length (vector ?f)))"
    using rng by simp
  have sc: "(2::nat) = 0 \<longrightarrow> [2::nat] = [] \<and> 1 < length (dofs example_lib ?V) \<and>
              (\<forall>j \<le> 1. dofs example_lib ?V ! j < length (vector ?f))"
    by simp
  from single_operand_logical_values [OF f V n' sh' t sc]
  have "\<exists>s gens rest.
      collect_args example_lib example_store (None, None, []) [Fun 0] =
        Inr (Some (NDArray [4] [1, 2, 3, 4], ?V), s, gens) \<and>
      kth_args (NDArray [4] [1, 2, 3, 4 :: int]) s gens 1 =
        Some (Inr ([NDArray [2] [3, 4]], rest))"
    using s0 s1
    by (simp add: upt_rec eval_nat_numeral del: collect_args.simps kth_args.simps)
  with f n sh s0 s1 show ?thesis by blast
qed

end
